theory Spec2Isabelle
  imports Complex_Main
begin

section \<open>Data model\<close>

text \<open>
  The Python exceptions that the modelled code can raise. A function that may raise
  returns \<open>error + 'a\<close>, with \<open>Inl\<close> for the exception.
\<close>

datatype error = IndexError | KeyError | AttributeError | AssertionError | ValueError

text \<open>
  The class of a membership function object. It selects the \<open>fuzzify\<close> method that a call
  \<open>mf.fuzzify(x)\<close> dispatches to.
\<close>

datatype mf_class = FreeShape | LinPW | Singleton

text \<open>
  Modelled from the spec: the class \<open>FreeShapeMF\<close> (module \<open>free_shape_mf\<close>) is not among
  the source files. The spec gives it two aligned sequences, \<open>in_values\<close> and \<open>mf_values\<close>,
  supplied directly to the constructor. Floats are modelled as reals.
\<close>

record membership_function =
  mf_class :: mf_class
  in_values :: "real list"
  mf_values :: "real list"

definition FreeShapeMF :: "real list \<Rightarrow> real list \<Rightarrow> membership_function" where
  "FreeShapeMF xs ys = \<lparr>mf_class = FreeShape, in_values = xs, mf_values = ys\<rparr>"

text \<open>
  Modelled from the spec: the class \<open>LinPWMF\<close> (module \<open>lin_piece_wise_mf\<close>) is not among
  the source files. The spec: it accepts a variable number of \<open>(x, y)\<close> pairs and collects
  the x-sequence and the y-sequence in the given order; the constructor enforces no
  ordering.
\<close>

definition LinPWMF :: "(real \<times> real) list \<Rightarrow> membership_function" where
  "LinPWMF pts = \<lparr>mf_class = LinPW, in_values = map fst pts, mf_values = map snd pts\<rparr>"

text \<open>
  \<open>singleton_mf.py\<close>, \<open>SingletonMF.__init__\<close>:
  \<open>super().__init__(np.array([x, x]), np.array([0, 1]))\<close>.
\<close>

definition SingletonMF :: "real \<Rightarrow> membership_function" where
  "SingletonMF x = \<lparr>mf_class = Singleton, in_values = [x, x], mf_values = [0, 1]\<rparr>"

text \<open>
  Modelled from the spec: the class \<open>LinguisticVariable\<close> is not among the source files.
  The spec: a \<open>name\<close> and a mapping \<open>ling_values\<close> from label to membership function.
\<close>

record linguistic_variable =
  name :: string
  ling_values :: "string \<rightharpoonup> membership_function"

text \<open>
  Modelled from the spec: the classes \<open>Antecedent\<close> and \<open>Consequent\<close> (module
  \<open>fuzzy_rule_element\<close>) are not among the source files. The spec: a linguistic variable
  \<open>lv_name\<close>, a chosen label \<open>lv_value\<close> and, for antecedents, the negation flag \<open>is_not\<close>.
\<close>

record fuzzy_rule_element =
  lv_name :: linguistic_variable
  lv_value :: string

record antecedent = fuzzy_rule_element +
  is_not :: bool

type_synonym consequent = fuzzy_rule_element

text \<open>
  \<open>fuzzy_rule.py\<close>, \<open>FuzzyRule.__init__\<close>. The two operators are pairs of a callable and a
  display name; the callable receives one list argument (the code calls it with a
  two-element list).
\<close>

record fuzzy_rule =
  ants :: "antecedent list"
  ant_act_func :: "(real list \<Rightarrow> real) \<times> string"
  cons :: "consequent list"
  impl_func :: "(real list \<Rightarrow> real) \<times> string"

section \<open>Interpolation\<close>

text \<open>
  The library function \<open>numpy.interp(x, xp, fp)\<close> for a scalar \<open>x\<close>, after its documented
  behaviour: it raises \<open>ValueError\<close> on empty sample points or on sequences of different
  lengths; it returns \<open>fp[-1]\<close> for \<open>x > xp[-1]\<close> and \<open>fp[0]\<close> for \<open>x < xp[0]\<close>; otherwise
  it finds the last index \<open>j\<close> with \<open>xp[j] \<le> x\<close> scanning from the left, returns \<open>fp[j]\<close>
  when \<open>j\<close> is the last index or when \<open>xp[j] = x\<close>, and the value on the line through
  the points \<open>j\<close> and \<open>j + 1\<close> otherwise. On non-decreasing \<open>xp\<close> this is the index that
  the library's search finds.
\<close>

fun interp_scan :: "real \<Rightarrow> (real \<times> real) list \<Rightarrow> real" where
  "interp_scan x [] = 0"
| "interp_scan x [(x0, y0)] = y0"
| "interp_scan x ((x0, y0) # (x1, y1) # ps) =
     (if x1 \<le> x then interp_scan x ((x1, y1) # ps)
      else if x0 = x then y0
      else (y1 - y0) / (x1 - x0) * (x - x0) + y0)"

definition np_interp :: "real \<Rightarrow> real list \<Rightarrow> real list \<Rightarrow> error + real" where
  "np_interp x xp fp =
     (if xp = [] then Inl ValueError
      else if length fp \<noteq> length xp then Inl ValueError
      else if last xp < x then Inr (last fp)
      else if x < hd xp then Inr (hd fp)
      else Inr (interp_scan x (zip xp fp)))"

section \<open>Membership functions\<close>

text \<open>
  \<open>singleton_mf.py\<close>, \<open>SingletonMF.fuzzify\<close>: 1 when the input equals \<open>self._in_values[0]\<close>,
  else 0. Reading index 0 of an empty array raises \<open>IndexError\<close>.
\<close>

definition SingletonMF_fuzzify :: "membership_function \<Rightarrow> real \<Rightarrow> error + real" where
  "SingletonMF_fuzzify mf in_value =
     (case in_values mf of
        [] \<Rightarrow> Inl IndexError
      | x0 # _ \<Rightarrow> if in_value = x0 then Inr 1 else Inr 0)"

text \<open>
  Modelled from the spec: the base method \<open>fuzzify\<close> of \<open>FreeShapeMF\<close> is not among the
  source files. The spec: it returns the piecewise-linear interpolation of the stored
  samples at the input, with the boundary value outside the sampled domain.
\<close>

definition FreeShapeMF_fuzzify :: "membership_function \<Rightarrow> real \<Rightarrow> error + real" where
  "FreeShapeMF_fuzzify mf in_value = np_interp in_value (in_values mf) (mf_values mf)"

text \<open>The method that a call \<open>mf.fuzzify(in_value)\<close> runs: \<open>SingletonMF\<close> overrides it.\<close>

definition mf_fuzzify :: "membership_function \<Rightarrow> real \<Rightarrow> error + real" where
  "mf_fuzzify mf in_value =
     (case mf_class mf of
        Singleton \<Rightarrow> SingletonMF_fuzzify mf in_value
      | _ \<Rightarrow> FreeShapeMF_fuzzify mf in_value)"

section \<open>Fuzzy rules\<close>

subsection \<open>Activation\<close>

text \<open>
  \<open>FuzzyRule.activate\<close>: the loop \<open>for i in range(1, len(fuzzified_inputs))\<close> with the
  running value \<open>ant_val\<close>.
\<close>

function activate_loop :: "(real list \<Rightarrow> real) \<Rightarrow> real list \<Rightarrow> nat \<Rightarrow> real \<Rightarrow> real" where
  "activate_loop f fuzzified_inputs i ant_val =
     (if i < length fuzzified_inputs
      then activate_loop f fuzzified_inputs (i + 1) (f [ant_val, fuzzified_inputs ! i])
      else ant_val)"
  by pat_completeness auto
termination
  by (relation "measure (\<lambda>(f, xs, i, a). length xs - i)") auto

declare activate_loop.simps [simp del]

text \<open>\<open>fuzzified_inputs[0]\<close> raises \<open>IndexError\<close> on the empty list.\<close>

definition activate :: "fuzzy_rule \<Rightarrow> real list \<Rightarrow> error + real" where
  "activate r fuzzified_inputs =
     (case fuzzified_inputs of
        [] \<Rightarrow> Inl IndexError
      | x0 # _ \<Rightarrow> Inr (activate_loop (fst (ant_act_func r)) fuzzified_inputs 1 x0))"

subsection \<open>Fuzzification\<close>

text \<open>
  \<open>FuzzyRule.fuzzify\<close>, the inner loop \<open>for ant in self._ants\<close>: the first antecedent whose
  linguistic variable is named \<open>lv\<close> sets \<open>lv_exists\<close>, \<open>mf\<close> and \<open>is_not\<close> and breaks the
  loop. The dictionary read \<open>lvalue_dict[ant.lv_value]\<close> raises \<open>KeyError\<close> on a missing
  label. The result \<open>None\<close> is \<open>lv_exists = False\<close>.
\<close>

fun find_antecedent ::
  "antecedent list \<Rightarrow> string \<Rightarrow> error + (membership_function \<times> bool) option" where
  "find_antecedent [] lv = Inr None"
| "find_antecedent (ant # rest) lv =
     (if name (lv_name ant) = lv
      then (case ling_values (lv_name ant) (lv_value ant) of
              None \<Rightarrow> Inl KeyError
            | Some mf \<Rightarrow> Inr (Some (mf, is_not ant)))
      else find_antecedent rest lv)"

text \<open>
  The body of the outer loop for one entry \<open>(lv, crisp_input)\<close>: \<open>Inr None\<close> is the
  \<open>continue\<close> of an entry that matches no antecedent, \<open>Inr (Some d)\<close> the degree that is
  appended. The degree is \<open>np.interp(crisp_input, mf.in_values, mf.mf_values)\<close>, and
  \<open>1 -\<close> that when \<open>is_not\<close> is set.
\<close>

definition fuzzify_entry :: "antecedent list \<Rightarrow> string \<times> real \<Rightarrow> error + real option" where
  "fuzzify_entry as e =
     (case find_antecedent as (fst e) of
        Inl err \<Rightarrow> Inl err
      | Inr None \<Rightarrow> Inr None
      | Inr (Some (mf, neg)) \<Rightarrow>
          (case np_interp (snd e) (in_values mf) (mf_values mf) of
             Inl err \<Rightarrow> Inl err
           | Inr fuzzified_value \<Rightarrow>
               Inr (Some (if neg then 1 - fuzzified_value else fuzzified_value))))"

text \<open>
  The outer loop \<open>for (lv_name, crisp_input) in crisp_inputs.items()\<close>. The dictionary is
  the list of its items in iteration order; the accumulator is
  \<open>fuzzified_inputs_for_rule\<close>.
\<close>

fun fuzzify_loop ::
  "antecedent list \<Rightarrow> (string \<times> real) list \<Rightarrow> real list \<Rightarrow> error + real list" where
  "fuzzify_loop as [] fuzzified_inputs_for_rule = Inr fuzzified_inputs_for_rule"
| "fuzzify_loop as (e # rest) fuzzified_inputs_for_rule =
     (case fuzzify_entry as e of
        Inl err \<Rightarrow> Inl err
      | Inr None \<Rightarrow> fuzzify_loop as rest fuzzified_inputs_for_rule
      | Inr (Some d) \<Rightarrow> fuzzify_loop as rest (fuzzified_inputs_for_rule @ [d]))"

definition fuzzify :: "fuzzy_rule \<Rightarrow> (string \<times> real) list \<Rightarrow> error + real list" where
  "fuzzify r crisp_inputs = fuzzify_loop (ants r) crisp_inputs []"

subsection \<open>Implication\<close>

text \<open>
  Modelled from the spec: the subscript \<open>con.lv_name[con.lv_value]\<close> is the method
  \<open>__getitem__\<close> of \<open>LinguisticVariable\<close>, which is not among the source files. The spec:
  it resolves the membership function of the label within the linguistic variable. A
  missing label raises \<open>KeyError\<close>.
\<close>

definition lv_getitem :: "linguistic_variable \<Rightarrow> string \<Rightarrow> error + membership_function" where
  "lv_getitem lv label = (case ling_values lv label of None \<Rightarrow> Inl KeyError | Some mf \<Rightarrow> Inr mf)"

text \<open>
  \<open>copy.deepcopy\<close> of an array of floats: an equal array. Arrays are values here, so the
  copy is the array itself.
\<close>

definition deepcopy :: "real list \<Rightarrow> real list" where
  "deepcopy xs = xs"

text \<open>
  \<open>FuzzyRule.implicate\<close>, the body of the loop for one consequent: the new membership
  function \<open>FreeShapeMF(in_values, mf_values)\<close> with \<open>in_values\<close> a copy of the
  consequent's and \<open>mf_values = [impl_func([val, antecedents_activation]) ...]\<close>.
\<close>

definition implicate_con ::
  "(real list \<Rightarrow> real) \<Rightarrow> real \<Rightarrow> consequent \<Rightarrow> error + membership_function" where
  "implicate_con f antecedents_activation con =
     (case lv_getitem (lv_name con) (lv_value con) of
        Inl err \<Rightarrow> Inl err
      | Inr ling_value \<Rightarrow>
          Inr (FreeShapeMF (deepcopy (in_values ling_value))
                 (map (\<lambda>val. f [val, antecedents_activation]) (mf_values ling_value))))"

text \<open>
  \<open>implicated_consequents[k].append(v)\<close> on a \<open>defaultdict(list)\<close>: a missing key starts
  from the empty list.
\<close>

definition defaultdict_append ::
  "(string \<rightharpoonup> 'a list) \<Rightarrow> string \<Rightarrow> 'a \<Rightarrow> (string \<rightharpoonup> 'a list)" where
  "defaultdict_append d k v = d(k \<mapsto> (case d k of None \<Rightarrow> [] | Some l \<Rightarrow> l) @ [v])"

text \<open>
  The loop \<open>for con in self._cons\<close>, as state passing. The state is the rule \<open>self\<close>, with
  the linguistic variables and membership functions that its consequents hold, and the
  dictionary \<open>implicated_consequents\<close>. No statement of the loop assigns to \<open>self\<close> or to an
  object reached from it; an iteration appends to the dictionary only.
\<close>

fun implicate_loop ::
  "(real list \<Rightarrow> real) \<Rightarrow> real \<Rightarrow> consequent list \<Rightarrow>
   fuzzy_rule \<times> (string \<rightharpoonup> membership_function list) \<Rightarrow>
   error + fuzzy_rule \<times> (string \<rightharpoonup> membership_function list)" where
  "implicate_loop f a [] (self, implicated_consequents) = Inr (self, implicated_consequents)"
| "implicate_loop f a (con # rest) (self, implicated_consequents) =
     (case implicate_con f a con of
        Inl err \<Rightarrow> Inl err
      | Inr new_mf \<Rightarrow>
          implicate_loop f a rest
            (self, defaultdict_append implicated_consequents (name (lv_name con)) new_mf))"

text \<open>
  \<open>FuzzyRule.implicate\<close> returns the dictionary; the model returns the rule after the call
  beside it.
\<close>

definition implicate ::
  "fuzzy_rule \<Rightarrow> real \<Rightarrow> error + fuzzy_rule \<times> (string \<rightharpoonup> membership_function list)" where
  "implicate self antecedents_activation =
     implicate_loop (fst (impl_func self)) antecedents_activation (cons self) (self, Map.empty)"

subsection \<open>Output variable names\<close>

text \<open>
  \<open>con.lv_value.name\<close> reads the attribute \<open>name\<close> of the label. A label is a Python
  \<open>str\<close>, and \<open>str\<close> has no attribute \<open>name\<close>: the read raises \<open>AttributeError\<close>.
\<close>

definition str_getattr_name :: "string \<Rightarrow> error + string" where
  "str_getattr_name s = Inl AttributeError"

text \<open>
  \<open>FuzzyRule.get_output_variable_names\<close>: the list comprehension
  \<open>[con.lv_value.name for con in self.consequents]\<close>, stopped by the first exception.
\<close>

fun output_names_loop :: "consequent list \<Rightarrow> error + string list" where
  "output_names_loop [] = Inr []"
| "output_names_loop (con # rest) =
     (case str_getattr_name (lv_value con) of
        Inl err \<Rightarrow> Inl err
      | Inr n \<Rightarrow> (case output_names_loop rest of Inl err \<Rightarrow> Inl err | Inr ns \<Rightarrow> Inr (n # ns)))"

definition get_output_variable_names :: "fuzzy_rule \<Rightarrow> error + string list" where
  "get_output_variable_names r = output_names_loop (cons r)"

section \<open>Builders of linguistic variables\<close>

text \<open>
  Modelled from the spec: the constructor of \<open>LinguisticVariable\<close> is not among the source
  files. The spec: it stores the name and the mapping from label to membership function
  and checks nothing.
\<close>

definition LinguisticVariable ::
  "string \<Rightarrow> (string \<rightharpoonup> membership_function) \<Rightarrow> linguistic_variable" where
  "LinguisticVariable n d = \<lparr>name = n, ling_values = d\<rparr>"

text \<open>
  \<open>three_points_lv.py\<close>, \<open>ThreePointsLV.__init__\<close>: the assertion \<open>p1 < p2 < p3\<close>, then the
  dictionary literal with the keys \<open>n1\<close>, \<open>n2\<close>, \<open>n3\<close> in this order (a later equal key
  replaces an earlier one).
\<close>

definition ThreePointsLV ::
  "string \<Rightarrow> real \<Rightarrow> real \<Rightarrow> real \<Rightarrow> string \<Rightarrow> string \<Rightarrow> string \<Rightarrow> error + linguistic_variable" where
  "ThreePointsLV n p1 p2 p3 n1 n2 n3 =
     (if p1 < p2 \<and> p2 < p3
      then Inr (LinguisticVariable n
             (Map.empty(n1 \<mapsto> LinPWMF [(p1, 1), (p2, 0)],
                        n2 \<mapsto> LinPWMF [(p1, 0), (p2, 1), (p3, 0)],
                        n3 \<mapsto> LinPWMF [(p2, 0), (p3, 1)])))
      else Inl AssertionError)"

text \<open>
  \<open>two_points_lv.py\<close>, \<open>TwoPointsPDLV.__init__\<close>: the dictionary literal with the keys
  \<open>n1\<close>, \<open>n2\<close>; the constructor has no assertion.
\<close>

definition TwoPointsPDLV ::
  "string \<Rightarrow> real \<Rightarrow> real \<Rightarrow> string \<Rightarrow> string \<Rightarrow> error + linguistic_variable" where
  "TwoPointsPDLV n p d n1 n2 =
     Inr (LinguisticVariable n
           (Map.empty(n1 \<mapsto> LinPWMF [(p, 1), (p + d, 0)],
                      n2 \<mapsto> LinPWMF [(p, 0), (p + d, 1)])))"

section \<open>Properties\<close>

subsection \<open>Activation is a left fold\<close>

lemma activate_loop_foldl:
  "i \<le> length xs \<Longrightarrow>
   activate_loop f xs i a = foldl (\<lambda>acc d. f [acc, d]) a (drop i xs)"
proof (induction f xs i a rule: activate_loop.induct)
  case (1 f xs i a)
  show ?case
  proof (cases "i < length xs")
    case True
    then have "drop i xs = xs ! i # drop (i + 1) xs"
      by (simp add: Cons_nth_drop_Suc)
    with True "1.IH" show ?thesis
      by (simp add: activate_loop.simps [of f xs i a])
  next
    case False
    with "1.prems" have "i = length xs" by simp
    then show ?thesis
      by (simp add: activate_loop.simps [of f xs "length xs" a])
  qed
qed

text \<open>
  C2: on a non-empty sequence \<open>activate\<close> returns the left fold of the aggregation function,
  applied to two-element groups, with the first element as the starting accumulator; a
  one-element sequence yields its element; the empty sequence raises \<open>IndexError\<close>.
\<close>

theorem activate_left_fold:
  "activate r [] = Inl IndexError \<and>
   activate r [d] = Inr d \<and>
   activate r (x # xs) = Inr (foldl (\<lambda>acc e. fst (ant_act_func r) [acc, e]) x xs)"
  by (simp add: activate_def activate_loop_foldl)

theorem activate_left_fold_witness:
  "activate \<lparr>ants = [], ant_act_func = (\<lambda>l. min (l ! 0) (l ! 1), ''AND_min''), cons = [],
        impl_func = (\<lambda>l. min (l ! 0) (l ! 1), ''min'')\<rparr> [2 / 10, 9 / 10, 5 / 10] = Inr (2 / 10) \<and>
   activate \<lparr>ants = [], ant_act_func = (\<lambda>l. max (l ! 0) (l ! 1), ''OR_max''), cons = [],
        impl_func = (\<lambda>l. min (l ! 0) (l ! 1), ''min'')\<rparr> [2 / 10, 9 / 10, 5 / 10] = Inr (9 / 10) \<and>
   activate \<lparr>ants = [], ant_act_func = (\<lambda>l. min (l ! 0) (l ! 1), ''AND_min''), cons = [],
        impl_func = (\<lambda>l. min (l ! 0) (l ! 1), ''min'')\<rparr> [4 / 10] = Inr (4 / 10) \<and>
   activate \<lparr>ants = [], ant_act_func = (\<lambda>l. min (l ! 0) (l ! 1), ''AND_min''), cons = [],
        impl_func = (\<lambda>l. min (l ! 0) (l ! 1), ''min'')\<rparr> [] = Inl IndexError"
  using activate_left_fold
      [of "\<lparr>ants = [], ant_act_func = (\<lambda>l. min (l ! 0) (l ! 1), ''AND_min''), cons = [],
        impl_func = (\<lambda>l. min (l ! 0) (l ! 1), ''min'')\<rparr>" "4 / 10" "2 / 10" "[9 / 10, 5 / 10]"]
    activate_left_fold
      [of "\<lparr>ants = [], ant_act_func = (\<lambda>l. max (l ! 0) (l ! 1), ''OR_max''), cons = [],
        impl_func = (\<lambda>l. min (l ! 0) (l ! 1), ''min'')\<rparr>" "4 / 10" "2 / 10" "[9 / 10, 5 / 10]"]
  by simp

subsection \<open>Singleton membership functions\<close>

text \<open>
  C9: a \<open>SingletonMF\<close> built from \<open>x\<close> holds the samples \<open>[x, x]\<close> and \<open>[0, 1]\<close>, and its
  \<open>fuzzify\<close> returns 1 when the input equals \<open>x\<close> and 0 for every other input.
\<close>

theorem singleton_fuzzify_exact:
  "mf_fuzzify (SingletonMF x) v = Inr (if v = x then 1 else 0) \<and>
   SingletonMF_fuzzify (SingletonMF x) v = Inr (if v = x then 1 else 0) \<and>
   in_values (SingletonMF x) = [x, x] \<and>
   mf_values (SingletonMF x) = [0, 1]"
  by (simp add: mf_fuzzify_def SingletonMF_fuzzify_def SingletonMF_def)

theorem singleton_fuzzify_exact_witness:
  "mf_fuzzify (SingletonMF 5) 5 = Inr 1 \<and>
   mf_fuzzify (SingletonMF 5) (50001 / 10000) = Inr 0 \<and>
   mf_fuzzify (SingletonMF 5) (49999 / 10000) = Inr 0"
  using singleton_fuzzify_exact [of 5 5] singleton_fuzzify_exact [of 5 "50001 / 10000"]
    singleton_fuzzify_exact [of 5 "49999 / 10000"]
  by simp

subsection \<open>Output variable names\<close>

text \<open>
  C10: \<open>get_output_variable_names\<close> raises \<open>AttributeError\<close> on a rule with at least one
  consequent, since it reads \<open>name\<close> on the label, a string; on a rule with no consequent
  it returns the empty list.
\<close>

theorem get_output_variable_names_raises:
  "get_output_variable_names r = (if cons r = [] then Inr [] else Inl AttributeError)"
  by (cases "cons r") (simp_all add: get_output_variable_names_def str_getattr_name_def)

theorem get_output_variable_names_raises_witness:
  "get_output_variable_names
     \<lparr>ants = [], ant_act_func = (\<lambda>l. min (l ! 0) (l ! 1), ''AND_min''),
      cons = [\<lparr>lv_name = \<lparr>name = ''power'', ling_values = Map.empty\<rparr>, lv_value = ''high''\<rparr>],
      impl_func = (\<lambda>l. min (l ! 0) (l ! 1), ''min'')\<rparr> = Inl AttributeError \<and>
   get_output_variable_names
     \<lparr>ants = [], ant_act_func = (\<lambda>l. min (l ! 0) (l ! 1), ''AND_min''),
      cons = [], impl_func = (\<lambda>l. min (l ! 0) (l ! 1), ''min'')\<rparr> = Inr []"
  using get_output_variable_names_raises
    [of "\<lparr>ants = [], ant_act_func = (\<lambda>l. min (l ! 0) (l ! 1), ''AND_min''),
      cons = [\<lparr>lv_name = \<lparr>name = ''power'', ling_values = Map.empty\<rparr>, lv_value = ''high''\<rparr>],
      impl_func = (\<lambda>l. min (l ! 0) (l ! 1), ''min'')\<rparr>"]
    get_output_variable_names_raises
    [of "\<lparr>ants = [], ant_act_func = (\<lambda>l. min (l ! 0) (l ! 1), ''AND_min''),
      cons = [], impl_func = (\<lambda>l. min (l ! 0) (l ! 1), ''min'')\<rparr>"]
  by simp

subsection \<open>Builders\<close>

lemma ThreePointsLV_fails_iff:
  "ThreePointsLV n p1 p2 p3 n1 n2 n3 = Inl AssertionError \<longleftrightarrow> \<not> (p1 < p2 \<and> p2 < p3)"
  by (simp add: ThreePointsLV_def)

text \<open>
  C6, at the input \<open>TwoPointsPDLV("T", 0, -1)\<close>: the distance is negative, the points 0 and
  -1 are not increasing, and the construction succeeds. \<open>ThreePointsLV("T", 10, 5, 20)\<close>
  fails with the assertion.
\<close>

theorem TwoPointsPDLV_negative_distance:
  "TwoPointsPDLV ''T'' 0 (- 1) ''low'' ''high'' =
     Inr \<lparr>name = ''T'',
          ling_values = [''low'' \<mapsto> \<lparr>mf_class = LinPW, in_values = [0, - 1], mf_values = [1, 0]\<rparr>,
                         ''high'' \<mapsto> \<lparr>mf_class = LinPW, in_values = [0, - 1], mf_values = [0, 1]\<rparr>]\<rparr> \<and>
   ThreePointsLV ''T'' 10 5 20 ''low'' ''medium'' ''high'' = Inl AssertionError"
  by (simp add: TwoPointsPDLV_def ThreePointsLV_def LinguisticVariable_def LinPWMF_def)

subsection \<open>Fuzzification\<close>

lemma find_antecedent_skip:
  "\<forall>b\<in>set pre. name (lv_name b) \<noteq> n \<Longrightarrow>
   find_antecedent (pre @ rest) n = find_antecedent rest n"
  by (induction pre) simp_all



lemma fuzzify_entry_first:
  assumes "name (lv_name a) = n" and "\<forall>b\<in>set pre. name (lv_name b) \<noteq> n"
  shows "fuzzify_entry (pre @ a # post) (n, v) = fuzzify_entry [a] (n, v)"
proof -
  have "find_antecedent (pre @ a # post) n = find_antecedent (a # post) n"
    using assms(2) by (rule find_antecedent_skip)
  also have "\<dots> = find_antecedent [a] n"
    using assms(1) by simp
  finally show ?thesis
    by (simp add: fuzzify_entry_def)
qed



lemma fuzzify_loop_acc:
  "fuzzify_loop as ci acc =
   (case fuzzify_loop as ci [] of Inl err \<Rightarrow> Inl err | Inr out \<Rightarrow> Inr (acc @ out))"
proof (induction ci arbitrary: acc)
  case Nil
  show ?case by simp
next
  case (Cons e ci)
  show ?case
  proof (cases "fuzzify_entry as e")
    case (Inl err)
    then show ?thesis by simp
  next
    case (Inr od)
    show ?thesis
    proof (cases od)
      case None
      with Inr Cons.IH [of acc] show ?thesis by simp
    next
      case (Some d)
      with Inr Cons.IH [of "acc @ [d]"] Cons.IH [of "[d]"] show ?thesis
        by (simp split: sum.splits)
    qed
  qed
qed

lemma fuzzify_loop_append:
  "fuzzify_loop as (ci1 @ ci2) acc =
   (case fuzzify_loop as ci1 acc of Inl err \<Rightarrow> Inl err | Inr acc' \<Rightarrow> fuzzify_loop as ci2 acc')"
  by (induction ci1 arbitrary: acc) (simp_all split: sum.splits option.splits)

lemma fuzzify_loop_split:
  "fuzzify_loop as (ci1 @ e # ci2) [] =
   (case fuzzify_loop as ci1 [] of
      Inl err \<Rightarrow> Inl err
    | Inr o1 \<Rightarrow>
        (case fuzzify_loop as [e] [] of
           Inl err \<Rightarrow> Inl err
         | Inr de \<Rightarrow>
             (case fuzzify_loop as ci2 [] of
                Inl err \<Rightarrow> Inl err
              | Inr o2 \<Rightarrow> Inr (o1 @ de @ o2))))"
proof (cases "fuzzify_loop as ci1 []")
  case (Inl err)
  then show ?thesis
    by (simp add: fuzzify_loop_append)
next
  case o1: (Inr o1)
  show ?thesis
  proof (cases "fuzzify_entry as e")
    case (Inl err)
    with o1 show ?thesis
      by (simp add: fuzzify_loop_append)
  next
    case (Inr od)
    show ?thesis
    proof (cases od)
      case None
      with Inr o1 fuzzify_loop_acc [of as ci2 o1] show ?thesis
        by (simp add: fuzzify_loop_append split: sum.splits)
    next
      case (Some d)
      with Inr o1 fuzzify_loop_acc [of as ci2 "o1 @ [d]"] show ?thesis
        by (simp add: fuzzify_loop_append split: sum.splits)
    qed
  qed
qed

lemma find_antecedent_other_name:
  "k \<noteq> n \<Longrightarrow>
   find_antecedent (filter (\<lambda>b. name (lv_name b) \<noteq> n) post) k = find_antecedent post k"
  by (induction post) auto

lemma find_antecedent_drop_later:
  "find_antecedent (pre @ a # filter (\<lambda>b. name (lv_name b) \<noteq> name (lv_name a)) post) k =
   find_antecedent (pre @ a # post) k"
  by (induction pre) (simp_all add: find_antecedent_other_name)

lemma fuzzify_loop_cong_entry:
  "(\<And>e. fuzzify_entry as e = fuzzify_entry bs e) \<Longrightarrow>
   fuzzify_loop as ci acc = fuzzify_loop bs ci acc"
  by (induction ci arbitrary: acc) (simp_all split: sum.splits option.splits)

text \<open>
  C5: in any input mapping, the entry of a key \<open>n\<close> contributes what the first antecedent
  whose linguistic variable is named \<open>n\<close> gives alone, between the degrees of the entries
  before it and of those after it; and dropping every antecedent of that name declared
  after the first one changes the result on no mapping.
\<close>

theorem fuzzify_first_match:
  assumes "name (lv_name a) = n" and "\<forall>b\<in>set pre. name (lv_name b) \<noteq> n"
  shows "fuzzify (r\<lparr>ants := pre @ a # post\<rparr>) (ci1 @ (n, v) # ci2) =
     (case fuzzify (r\<lparr>ants := pre @ a # post\<rparr>) ci1 of
        Inl err \<Rightarrow> Inl err
      | Inr o1 \<Rightarrow>
          (case fuzzify (r\<lparr>ants := [a]\<rparr>) [(n, v)] of
             Inl err \<Rightarrow> Inl err
           | Inr da \<Rightarrow>
               (case fuzzify (r\<lparr>ants := pre @ a # post\<rparr>) ci2 of
                  Inl err \<Rightarrow> Inl err
                | Inr o2 \<Rightarrow> Inr (o1 @ da @ o2)))) \<and>
   fuzzify (r\<lparr>ants := pre @ a # post\<rparr>) ci =
     fuzzify (r\<lparr>ants := pre @ a # filter (\<lambda>b. name (lv_name b) \<noteq> n) post\<rparr>) ci"
proof
  have loop: "fuzzify (r\<lparr>ants := x\<rparr>) ci = fuzzify_loop x ci []" for x ci
    by (simp add: fuzzify_def)
  have one: "fuzzify_loop (pre @ a # post) [(n, v)] [] = fuzzify_loop [a] [(n, v)] []"
    using fuzzify_entry_first [OF assms, of post v]
    by (simp split: sum.splits option.splits)
  show "fuzzify (r\<lparr>ants := pre @ a # post\<rparr>) (ci1 @ (n, v) # ci2) =
     (case fuzzify (r\<lparr>ants := pre @ a # post\<rparr>) ci1 of
        Inl err \<Rightarrow> Inl err
      | Inr o1 \<Rightarrow>
          (case fuzzify (r\<lparr>ants := [a]\<rparr>) [(n, v)] of
             Inl err \<Rightarrow> Inl err
           | Inr da \<Rightarrow>
               (case fuzzify (r\<lparr>ants := pre @ a # post\<rparr>) ci2 of
                  Inl err \<Rightarrow> Inl err
                | Inr o2 \<Rightarrow> Inr (o1 @ da @ o2))))"
    unfolding loop one [symmetric] by (rule fuzzify_loop_split)
next
  have "fuzzify_entry (pre @ a # filter (\<lambda>b. name (lv_name b) \<noteq> n) post) e =
    fuzzify_entry (pre @ a # post) e" for e
    using find_antecedent_drop_later [of pre a post "fst e"] assms(1)
    by (simp add: fuzzify_entry_def)
  then show "fuzzify (r\<lparr>ants := pre @ a # post\<rparr>) ci =
     fuzzify (r\<lparr>ants := pre @ a # filter (\<lambda>b. name (lv_name b) \<noteq> n) post\<rparr>) ci"
    unfolding fuzzify_def
    using fuzzify_loop_cong_entry
      [of "pre @ a # post" "pre @ a # filter (\<lambda>b. name (lv_name b) \<noteq> n) post" ci "[]"]
    by simp
qed

theorem fuzzify_first_match_witness:
  "fuzzify \<lparr>ants = [\<lparr>lv_name = \<lparr>name = ''temperature'',
            ling_values = [''cold'' \<mapsto> LinPWMF [(0, 1), (20, 0)],
                           ''hot'' \<mapsto> LinPWMF [(0, 0), (20, 1)]]\<rparr>,
          lv_value = ''cold'', is_not = False\<rparr>,
        \<lparr>lv_name = \<lparr>name = ''temperature'',
            ling_values = [''cold'' \<mapsto> LinPWMF [(0, 1), (20, 0)],
                           ''hot'' \<mapsto> LinPWMF [(0, 0), (20, 1)]]\<rparr>,
          lv_value = ''hot'', is_not = False\<rparr>,
        \<lparr>lv_name = \<lparr>name = ''sunshine'',
            ling_values = [''bright'' \<mapsto> LinPWMF [(0, 0), (100, 1)]]\<rparr>,
          lv_value = ''bright'', is_not = False\<rparr>],
        ant_act_func = (\<lambda>l. min (l ! 0) (l ! 1), ''AND_min''), cons = [],
        impl_func = (\<lambda>l. min (l ! 0) (l ! 1), ''min'')\<rparr>
     [(''sunshine'', 55), (''temperature'', 18)] = Inr [11 / 20, 1 / 10] \<and>
   fuzzify \<lparr>ants = [\<lparr>lv_name = \<lparr>name = ''temperature'',
            ling_values = [''cold'' \<mapsto> LinPWMF [(0, 1), (20, 0)],
                           ''hot'' \<mapsto> LinPWMF [(0, 0), (20, 1)]]\<rparr>,
          lv_value = ''cold'', is_not = False\<rparr>,
        \<lparr>lv_name = \<lparr>name = ''temperature'',
            ling_values = [''cold'' \<mapsto> LinPWMF [(0, 1), (20, 0)],
                           ''hot'' \<mapsto> LinPWMF [(0, 0), (20, 1)]]\<rparr>,
          lv_value = ''hot'', is_not = False\<rparr>,
        \<lparr>lv_name = \<lparr>name = ''sunshine'',
            ling_values = [''bright'' \<mapsto> LinPWMF [(0, 0), (100, 1)]]\<rparr>,
          lv_value = ''bright'', is_not = False\<rparr>],
        ant_act_func = (\<lambda>l. min (l ! 0) (l ! 1), ''AND_min''), cons = [],
        impl_func = (\<lambda>l. min (l ! 0) (l ! 1), ''min'')\<rparr>
     [(''sunshine'', 55), (''temperature'', 18)] =
   fuzzify \<lparr>ants = [\<lparr>lv_name = \<lparr>name = ''temperature'',
            ling_values = [''cold'' \<mapsto> LinPWMF [(0, 1), (20, 0)],
                           ''hot'' \<mapsto> LinPWMF [(0, 0), (20, 1)]]\<rparr>,
          lv_value = ''cold'', is_not = False\<rparr>,
        \<lparr>lv_name = \<lparr>name = ''sunshine'',
            ling_values = [''bright'' \<mapsto> LinPWMF [(0, 0), (100, 1)]]\<rparr>,
          lv_value = ''bright'', is_not = False\<rparr>],
        ant_act_func = (\<lambda>l. min (l ! 0) (l ! 1), ''AND_min''), cons = [],
        impl_func = (\<lambda>l. min (l ! 0) (l ! 1), ''min'')\<rparr>
     [(''sunshine'', 55), (''temperature'', 18)]"
  using fuzzify_first_match
    [where a = "\<lparr>lv_name = \<lparr>name = ''temperature'',
            ling_values = [''cold'' \<mapsto> LinPWMF [(0, 1), (20, 0)],
                           ''hot'' \<mapsto> LinPWMF [(0, 0), (20, 1)]]\<rparr>,
          lv_value = ''cold'', is_not = False\<rparr>"
       and n = "''temperature''" and pre = "[]"
       and r = "\<lparr>ants = [], ant_act_func = (\<lambda>l. min (l ! 0) (l ! 1), ''AND_min''), cons = [],
        impl_func = (\<lambda>l. min (l ! 0) (l ! 1), ''min'')\<rparr>"
       and post = "[\<lparr>lv_name = \<lparr>name = ''temperature'',
            ling_values = [''cold'' \<mapsto> LinPWMF [(0, 1), (20, 0)],
                           ''hot'' \<mapsto> LinPWMF [(0, 0), (20, 1)]]\<rparr>,
          lv_value = ''hot'', is_not = False\<rparr>,
        \<lparr>lv_name = \<lparr>name = ''sunshine'',
            ling_values = [''bright'' \<mapsto> LinPWMF [(0, 0), (100, 1)]]\<rparr>,
          lv_value = ''bright'', is_not = False\<rparr>]"
       and v = 18 and ?ci1.0 = "[(''sunshine'', 55)]" and ?ci2.0 = "[]"
       and ci = "[(''sunshine'', 55), (''temperature'', 18)]"]
  by (simp add: fuzzify_def fuzzify_entry_def np_interp_def LinPWMF_def)



text \<open>
  C8: in any input mapping, when the antecedent used for the entry \<open>(n, v)\<close> carries the
  negation flag and the raw degree of \<open>v\<close> is \<open>d\<close>, the degree that \<open>fuzzify\<close> appends for
  that entry is \<open>1 - d\<close> (and \<open>d\<close> itself without the flag), between the degrees of the
  entries before it and of those after it.
\<close>

theorem fuzzify_negation:
  assumes "name (lv_name a) = n" and "\<forall>b\<in>set pre. name (lv_name b) \<noteq> n"
    and "ling_values (lv_name a) (lv_value a) = Some mf"
    and "np_interp v (in_values mf) (mf_values mf) = Inr d"
  shows "fuzzify (r\<lparr>ants := pre @ a # post\<rparr>) (ci1 @ (n, v) # ci2) =
     (case fuzzify (r\<lparr>ants := pre @ a # post\<rparr>) ci1 of
        Inl err \<Rightarrow> Inl err
      | Inr o1 \<Rightarrow>
          (case fuzzify (r\<lparr>ants := pre @ a # post\<rparr>) ci2 of
             Inl err \<Rightarrow> Inl err
           | Inr o2 \<Rightarrow> Inr (o1 @ [if is_not a then 1 - d else d] @ o2)))"
proof -
  have "fuzzify_entry (pre @ a # post) (n, v) = fuzzify_entry [a] (n, v)"
    using assms(1,2) by (rule fuzzify_entry_first)
  also have "\<dots> = Inr (Some (if is_not a then 1 - d else d))"
    using assms(1,3,4) by (simp add: fuzzify_entry_def)
  finally have "fuzzify_loop (pre @ a # post) [(n, v)] [] =
      Inr [if is_not a then 1 - d else d]"
    by simp
  then show ?thesis
    unfolding fuzzify_def
    using fuzzify_loop_split [of "pre @ a # post" ci1 "(n, v)" ci2]
    by (simp split: sum.splits)
qed

theorem fuzzify_negation_witness:
  "np_interp 6 [0, 20] [0, 1] = Inr (3 / 10) \<and>
   fuzzify \<lparr>ants = [\<lparr>lv_name = \<lparr>name = ''sunshine'',
            ling_values = [''bright'' \<mapsto> LinPWMF [(0, 0), (100, 1)]]\<rparr>,
          lv_value = ''bright'', is_not = False\<rparr>,
        \<lparr>lv_name = \<lparr>name = ''temperature'',
            ling_values = [''cold'' \<mapsto> LinPWMF [(0, 1), (20, 0)],
                           ''hot'' \<mapsto> LinPWMF [(0, 0), (20, 1)]]\<rparr>,
          lv_value = ''hot'', is_not = True\<rparr>],
        ant_act_func = (\<lambda>l. min (l ! 0) (l ! 1), ''AND_min''), cons = [],
        impl_func = (\<lambda>l. min (l ! 0) (l ! 1), ''min'')\<rparr>
     [(''temperature'', 6), (''sunshine'', 55)] = Inr [7 / 10, 11 / 20]"
  using fuzzify_negation
    [where a = "\<lparr>lv_name = \<lparr>name = ''temperature'',
            ling_values = [''cold'' \<mapsto> LinPWMF [(0, 1), (20, 0)],
                           ''hot'' \<mapsto> LinPWMF [(0, 0), (20, 1)]]\<rparr>,
          lv_value = ''hot'', is_not = True\<rparr>"
       and n = "''temperature''"
       and pre = "[\<lparr>lv_name = \<lparr>name = ''sunshine'',
            ling_values = [''bright'' \<mapsto> LinPWMF [(0, 0), (100, 1)]]\<rparr>,
          lv_value = ''bright'', is_not = False\<rparr>]"
       and mf = "LinPWMF [(0, 0), (20, 1)]"
       and v = 6 and d = "3 / 10"
       and r = "\<lparr>ants = [], ant_act_func = (\<lambda>l. min (l ! 0) (l ! 1), ''AND_min''), cons = [],
        impl_func = (\<lambda>l. min (l ! 0) (l ! 1), ''min'')\<rparr>" and post = "[]"
       and ?ci1.0 = "[]" and ?ci2.0 = "[(''sunshine'', 55)]"]
  by (simp add: fuzzify_def fuzzify_entry_def np_interp_def LinPWMF_def)

text \<open>
  C1, at a rule whose one antecedent is the label \<open>five\<close>, a \<open>SingletonMF(5)\<close>, of the
  variable \<open>level\<close>, and the input \<open>{"level": 6}\<close>: \<open>FuzzyRule.fuzzify\<close> passes the samples
  \<open>[5, 5]\<close>, \<open>[0, 1]\<close> to \<open>np.interp\<close> and appends the degree 1, where the membership
  function's own \<open>fuzzify\<close> returns 0.
\<close>

theorem fuzzify_bypasses_singleton:
  "fuzzify \<lparr>ants = [\<lparr>lv_name = \<lparr>name = ''level'', ling_values = [''five'' \<mapsto> SingletonMF 5]\<rparr>, lv_value = ''five'', is_not = False\<rparr>], ant_act_func = (\<lambda>l. min (l ! 0) (l ! 1), ''AND_min''), cons = [],
          impl_func = (\<lambda>l. min (l ! 0) (l ! 1), ''min'')\<rparr> [(''level'', 6)] = Inr [1] \<and>
   mf_fuzzify (SingletonMF 5) 6 = Inr 0"
  by (simp add: fuzzify_def fuzzify_entry_def np_interp_def LinPWMF_def SingletonMF_def mf_fuzzify_def SingletonMF_fuzzify_def)

subsection \<open>Implication\<close>

lemma implicate_con_Inr:
  "implicate_con f a con = Inr g \<longleftrightarrow>
   (\<exists>mf. ling_values (lv_name con) (lv_value con) = Some mf \<and>
     g = \<lparr>mf_class = FreeShape, in_values = in_values mf,
           mf_values = map (\<lambda>d. f [d, a]) (mf_values mf)\<rparr>)"
  by (auto simp: implicate_con_def lv_getitem_def FreeShapeMF_def deepcopy_def
      split: option.splits)

lemma defaultdict_append_lookup:
  "(case defaultdict_append d k v n of None \<Rightarrow> [] | Some l \<Rightarrow> l) =
   (case d n of None \<Rightarrow> [] | Some l \<Rightarrow> l) @ (if k = n then [v] else [])"
  by (simp add: defaultdict_append_def)

lemma dom_defaultdict_append: "dom (defaultdict_append d k v) = insert k (dom d)"
  by (simp add: defaultdict_append_def)

lemma implicate_loop_lists:
  "implicate_loop f a cs (s, d0) = Inr (s', d) \<Longrightarrow>
   s' = s \<and>
   dom d = dom d0 \<union> (\<lambda>c. name (lv_name c)) ` set cs \<and>
   (\<forall>n. map Inr (case d n of None \<Rightarrow> [] | Some l \<Rightarrow> l) =
        map Inr (case d0 n of None \<Rightarrow> [] | Some l \<Rightarrow> l) @
        map (implicate_con f a) (filter (\<lambda>c. name (lv_name c) = n) cs))"
proof (induction cs arbitrary: d0)
  case Nil
  then show ?case by simp
next
  case (Cons c cs)
  show ?case
  proof (cases "implicate_con f a c")
    case (Inl err)
    with Cons.prems show ?thesis by simp
  next
    case (Inr new_mf)
    with Cons.prems have
      "implicate_loop f a cs (s, defaultdict_append d0 (name (lv_name c)) new_mf) = Inr (s', d)"
      by simp
    from Cons.IH [OF this] have s: "s' = s"
      and dm: "dom d = dom (defaultdict_append d0 (name (lv_name c)) new_mf) \<union>
                 (\<lambda>c. name (lv_name c)) ` set cs"
      and ls: "\<And>n. map Inr (case d n of None \<Rightarrow> [] | Some l \<Rightarrow> l) =
        map Inr (case defaultdict_append d0 (name (lv_name c)) new_mf n of
                   None \<Rightarrow> [] | Some l \<Rightarrow> l) @
        map (implicate_con f a) (filter (\<lambda>c. name (lv_name c) = n) cs)"
      by simp_all
    have "dom d = dom d0 \<union> (\<lambda>c. name (lv_name c)) ` set (c # cs)"
      using dm by (simp add: dom_defaultdict_append)
    moreover have "map Inr (case d n of None \<Rightarrow> [] | Some l \<Rightarrow> l) =
        map Inr (case d0 n of None \<Rightarrow> [] | Some l \<Rightarrow> l) @
        map (implicate_con f a) (filter (\<lambda>c. name (lv_name c) = n) (c # cs))" for n
      using ls [of n] Inr by (simp add: defaultdict_append_lookup)
    ultimately show ?thesis
      using s by simp
  qed
qed

lemma implicate_lists:
  assumes "implicate r a = Inr (r', d)"
  shows "r' = r"
    and "dom d = (\<lambda>c. name (lv_name c)) ` set (cons r)"
    and "d n = Some l \<Longrightarrow>
         map Inr l = map (implicate_con (fst (impl_func r)) a)
                       (filter (\<lambda>c. name (lv_name c) = n) (cons r))"
proof -
  from assms have
    loop: "implicate_loop (fst (impl_func r)) a (cons r) (r, Map.empty) = Inr (r', d)"
    by (simp add: implicate_def)
  from implicate_loop_lists [OF loop] show "r' = r"
    and "dom d = (\<lambda>c. name (lv_name c)) ` set (cons r)"
    by simp_all
  assume "d n = Some l"
  with implicate_loop_lists [OF loop] show
    "map Inr l = map (implicate_con (fst (impl_func r)) a)
                   (filter (\<lambda>c. name (lv_name c) = n) (cons r))"
    by (auto dest: spec [of _ n])
qed

text \<open>
  C3: when \<open>implicate\<close> returns, the rule with its consequents and their membership
  functions is as before the call; for each consequent the result holds, under the
  consequent's variable name, a new \<open>FreeShapeMF\<close> with the \<open>in_values\<close> of the consequent's
  membership function and with each degree \<open>d\<close> replaced by
  \<open>implication_function([d, a])\<close>; and the result holds no other membership function.
\<close>

theorem implicate_new_mf:
  assumes "implicate r a = Inr (r', d)"
  shows "r' = r \<and>
    (\<forall>con\<in>set (cons r). \<exists>mf l.
        ling_values (lv_name con) (lv_value con) = Some mf \<and>
        d (name (lv_name con)) = Some l \<and>
        \<lparr>mf_class = FreeShape, in_values = in_values mf,
         mf_values = map (\<lambda>v. fst (impl_func r) [v, a]) (mf_values mf)\<rparr> \<in> set l) \<and>
    (\<forall>n l g. d n = Some l \<and> g \<in> set l \<longrightarrow>
       (\<exists>con\<in>set (cons r). \<exists>mf.
          name (lv_name con) = n \<and>
          ling_values (lv_name con) (lv_value con) = Some mf \<and>
          g = \<lparr>mf_class = FreeShape, in_values = in_values mf,
                mf_values = map (\<lambda>v. fst (impl_func r) [v, a]) (mf_values mf)\<rparr>))"
proof (intro conjI ballI allI impI)
  show "r' = r"
    using assms by (rule implicate_lists(1))
next
  fix con
  assume con: "con \<in> set (cons r)"
  then have "name (lv_name con) \<in> dom d"
    using implicate_lists(2) [OF assms] by auto
  then obtain l where l: "d (name (lv_name con)) = Some l"
    by auto
  have "implicate_con (fst (impl_func r)) a con \<in> set (map Inr l)"
    using con by (simp add: implicate_lists(3) [OF assms l])
  then obtain g where g: "g \<in> set l" "implicate_con (fst (impl_func r)) a con = Inr g"
    by auto
  from g(2) obtain mf where
    "ling_values (lv_name con) (lv_value con) = Some mf"
    "g = \<lparr>mf_class = FreeShape, in_values = in_values mf,
          mf_values = map (\<lambda>v. fst (impl_func r) [v, a]) (mf_values mf)\<rparr>"
    by (auto simp: implicate_con_Inr)
  with l g(1) show "\<exists>mf l.
        ling_values (lv_name con) (lv_value con) = Some mf \<and>
        d (name (lv_name con)) = Some l \<and>
        \<lparr>mf_class = FreeShape, in_values = in_values mf,
         mf_values = map (\<lambda>v. fst (impl_func r) [v, a]) (mf_values mf)\<rparr> \<in> set l"
    by auto
next
  fix n l g
  assume "d n = Some l \<and> g \<in> set l"
  then have l: "d n = Some l" and g: "g \<in> set l"
    by simp_all
  have eq: "map Inr l = map (implicate_con (fst (impl_func r)) a)
      (filter (\<lambda>c. name (lv_name c) = n) (cons r))"
    using assms l by (rule implicate_lists(3))
  have "Inr g \<in> set (map (implicate_con (fst (impl_func r)) a)
      (filter (\<lambda>c. name (lv_name c) = n) (cons r)))"
    unfolding eq [symmetric] using g by simp
  then obtain con where con: "con \<in> set (cons r)" "name (lv_name con) = n"
    and "implicate_con (fst (impl_func r)) a con = Inr g"
    by auto
  then show "\<exists>con\<in>set (cons r). \<exists>mf.
          name (lv_name con) = n \<and>
          ling_values (lv_name con) (lv_value con) = Some mf \<and>
          g = \<lparr>mf_class = FreeShape, in_values = in_values mf,
                mf_values = map (\<lambda>v. fst (impl_func r) [v, a]) (mf_values mf)\<rparr>"
    by (auto simp: implicate_con_Inr)
qed

lemma implicate_example_one:
  "implicate \<lparr>ants = [], ant_act_func = (\<lambda>l. min (l ! 0) (l ! 1), ''AND_min''),
        cons = [\<lparr>lv_name = \<lparr>name = ''power'',
            ling_values = [''low'' \<mapsto> FreeShapeMF [0, 5, 10] [0, 1, 0],
                           ''high'' \<mapsto> FreeShapeMF [5, 10, 15] [0, 1, 0]]\<rparr>,
          lv_value = ''low''\<rparr>],
        impl_func = (\<lambda>l. min (l ! 0) (l ! 1), ''min'')\<rparr> (6 / 10) =
   Inr (\<lparr>ants = [], ant_act_func = (\<lambda>l. min (l ! 0) (l ! 1), ''AND_min''),
        cons = [\<lparr>lv_name = \<lparr>name = ''power'',
            ling_values = [''low'' \<mapsto> FreeShapeMF [0, 5, 10] [0, 1, 0],
                           ''high'' \<mapsto> FreeShapeMF [5, 10, 15] [0, 1, 0]]\<rparr>,
          lv_value = ''low''\<rparr>],
        impl_func = (\<lambda>l. min (l ! 0) (l ! 1), ''min'')\<rparr>,
        [''power'' \<mapsto> [\<lparr>mf_class = FreeShape, in_values = [0, 5, 10], mf_values = [0, 6 / 10, 0]\<rparr>]])"
  by (simp add: implicate_def implicate_con_def lv_getitem_def defaultdict_append_def FreeShapeMF_def deepcopy_def)

theorem implicate_new_mf_witness:
  "implicate \<lparr>ants = [], ant_act_func = (\<lambda>l. min (l ! 0) (l ! 1), ''AND_min''),
        cons = [\<lparr>lv_name = \<lparr>name = ''power'',
            ling_values = [''low'' \<mapsto> FreeShapeMF [0, 5, 10] [0, 1, 0],
                           ''high'' \<mapsto> FreeShapeMF [5, 10, 15] [0, 1, 0]]\<rparr>,
          lv_value = ''low''\<rparr>],
        impl_func = (\<lambda>l. min (l ! 0) (l ! 1), ''min'')\<rparr> (6 / 10) =
   Inr (\<lparr>ants = [], ant_act_func = (\<lambda>l. min (l ! 0) (l ! 1), ''AND_min''),
        cons = [\<lparr>lv_name = \<lparr>name = ''power'',
            ling_values = [''low'' \<mapsto> FreeShapeMF [0, 5, 10] [0, 1, 0],
                           ''high'' \<mapsto> FreeShapeMF [5, 10, 15] [0, 1, 0]]\<rparr>,
          lv_value = ''low''\<rparr>],
        impl_func = (\<lambda>l. min (l ! 0) (l ! 1), ''min'')\<rparr>,
        [''power'' \<mapsto> [\<lparr>mf_class = FreeShape, in_values = [0, 5, 10], mf_values = [0, 6 / 10, 0]\<rparr>]]) \<and>
   (\<exists>mf l. ling_values \<lparr>name = ''power'',
            ling_values = [''low'' \<mapsto> FreeShapeMF [0, 5, 10] [0, 1, 0],
                           ''high'' \<mapsto> FreeShapeMF [5, 10, 15] [0, 1, 0]]\<rparr> ''low'' = Some mf \<and>
      [''power'' \<mapsto> [\<lparr>mf_class = FreeShape, in_values = [0, 5, 10], mf_values = [0, 6 / 10, 0]\<rparr>]] ''power'' = Some l \<and>
      \<lparr>mf_class = FreeShape, in_values = in_values mf,
       mf_values = map (\<lambda>v. min v (6 / 10)) (mf_values mf)\<rparr> \<in> set l)"
  using implicate_new_mf [OF implicate_example_one] implicate_example_one
  by simp

text \<open>
  C4: the mapping that \<open>implicate\<close> returns has exactly the variable names of the
  consequents as keys, and under a name the list of the implicated membership functions
  of the consequents on that variable, in the order of the consequents.
\<close>

theorem implicate_groups_by_name:
  assumes "implicate r a = Inr (r', d)"
  shows "dom d = (\<lambda>c. name (lv_name c)) ` set (cons r) \<and>
    (\<forall>n l. d n = Some l \<longrightarrow>
       map Inr l = map (implicate_con (fst (impl_func r)) a)
                     (filter (\<lambda>c. name (lv_name c) = n) (cons r)))"
  using implicate_lists(2,3) [OF assms] by blast

lemma implicate_example_two:
  "implicate \<lparr>ants = [], ant_act_func = (\<lambda>l. min (l ! 0) (l ! 1), ''AND_min''),
        cons = [\<lparr>lv_name = \<lparr>name = ''power'',
            ling_values = [''low'' \<mapsto> FreeShapeMF [0, 5, 10] [0, 1, 0],
                           ''high'' \<mapsto> FreeShapeMF [5, 10, 15] [0, 1, 0]]\<rparr>,
          lv_value = ''low''\<rparr>,
         \<lparr>lv_name = \<lparr>name = ''power'',
            ling_values = [''low'' \<mapsto> FreeShapeMF [0, 5, 10] [0, 1, 0],
                           ''high'' \<mapsto> FreeShapeMF [5, 10, 15] [0, 1, 0]]\<rparr>,
          lv_value = ''high''\<rparr>],
        impl_func = (\<lambda>l. min (l ! 0) (l ! 1), ''min'')\<rparr> (6 / 10) =
   Inr (\<lparr>ants = [], ant_act_func = (\<lambda>l. min (l ! 0) (l ! 1), ''AND_min''),
        cons = [\<lparr>lv_name = \<lparr>name = ''power'',
            ling_values = [''low'' \<mapsto> FreeShapeMF [0, 5, 10] [0, 1, 0],
                           ''high'' \<mapsto> FreeShapeMF [5, 10, 15] [0, 1, 0]]\<rparr>,
          lv_value = ''low''\<rparr>,
         \<lparr>lv_name = \<lparr>name = ''power'',
            ling_values = [''low'' \<mapsto> FreeShapeMF [0, 5, 10] [0, 1, 0],
                           ''high'' \<mapsto> FreeShapeMF [5, 10, 15] [0, 1, 0]]\<rparr>,
          lv_value = ''high''\<rparr>],
        impl_func = (\<lambda>l. min (l ! 0) (l ! 1), ''min'')\<rparr>,
        [''power'' \<mapsto> [\<lparr>mf_class = FreeShape, in_values = [0, 5, 10], mf_values = [0, 6 / 10, 0]\<rparr>,
                        \<lparr>mf_class = FreeShape, in_values = [5, 10, 15], mf_values = [0, 6 / 10, 0]\<rparr>]])"
  by (simp add: implicate_def implicate_con_def lv_getitem_def defaultdict_append_def FreeShapeMF_def deepcopy_def)

theorem implicate_groups_by_name_witness:
  "implicate \<lparr>ants = [], ant_act_func = (\<lambda>l. min (l ! 0) (l ! 1), ''AND_min''),
        cons = [\<lparr>lv_name = \<lparr>name = ''power'',
            ling_values = [''low'' \<mapsto> FreeShapeMF [0, 5, 10] [0, 1, 0],
                           ''high'' \<mapsto> FreeShapeMF [5, 10, 15] [0, 1, 0]]\<rparr>,
          lv_value = ''low''\<rparr>,
         \<lparr>lv_name = \<lparr>name = ''power'',
            ling_values = [''low'' \<mapsto> FreeShapeMF [0, 5, 10] [0, 1, 0],
                           ''high'' \<mapsto> FreeShapeMF [5, 10, 15] [0, 1, 0]]\<rparr>,
          lv_value = ''high''\<rparr>],
        impl_func = (\<lambda>l. min (l ! 0) (l ! 1), ''min'')\<rparr> (6 / 10) =
   Inr (\<lparr>ants = [], ant_act_func = (\<lambda>l. min (l ! 0) (l ! 1), ''AND_min''),
        cons = [\<lparr>lv_name = \<lparr>name = ''power'',
            ling_values = [''low'' \<mapsto> FreeShapeMF [0, 5, 10] [0, 1, 0],
                           ''high'' \<mapsto> FreeShapeMF [5, 10, 15] [0, 1, 0]]\<rparr>,
          lv_value = ''low''\<rparr>,
         \<lparr>lv_name = \<lparr>name = ''power'',
            ling_values = [''low'' \<mapsto> FreeShapeMF [0, 5, 10] [0, 1, 0],
                           ''high'' \<mapsto> FreeShapeMF [5, 10, 15] [0, 1, 0]]\<rparr>,
          lv_value = ''high''\<rparr>],
        impl_func = (\<lambda>l. min (l ! 0) (l ! 1), ''min'')\<rparr>,
        [''power'' \<mapsto> [\<lparr>mf_class = FreeShape, in_values = [0, 5, 10], mf_values = [0, 6 / 10, 0]\<rparr>,
                        \<lparr>mf_class = FreeShape, in_values = [5, 10, 15], mf_values = [0, 6 / 10, 0]\<rparr>]]) \<and>
   dom [''power'' \<mapsto> [\<lparr>mf_class = FreeShape, in_values = [0, 5, 10], mf_values = [0, 6 / 10, 0]\<rparr>,
                        \<lparr>mf_class = FreeShape, in_values = [5, 10, 15], mf_values = [0, 6 / 10, 0]\<rparr>]] = {''power''} \<and>
   length (the ([''power'' \<mapsto> [\<lparr>mf_class = FreeShape, in_values = [0, 5, 10], mf_values = [0, 6 / 10, 0]\<rparr>,
                        \<lparr>mf_class = FreeShape, in_values = [5, 10, 15], mf_values = [0, 6 / 10, 0]\<rparr>]] ''power'')) = 2"
  using implicate_groups_by_name [OF implicate_example_two] implicate_example_two
  by simp

end
